theory Spec2Isabelle
  imports Complex_Main "HOL-Library.Log_Nat"
begin

section \<open>Python values used by \<^verbatim>\<open>scripts/akshare_fund_flow.py\<close>\<close>

text \<open>
  Strings are byte lists: the command-line argument and the column names in their UTF-8
  encoding. The only string operations of the script are \<^verbatim>\<open>startswith\<close> with ASCII
  prefixes and the slice \<^verbatim>\<open>[2:]\<close> taken after an ASCII prefix of two characters, and on
  those a code point and a byte are the same thing.

  A Python float is a finite number, an infinity or a NaN. The script only passes floats
  on (it never computes with them), so a finite float carries the number it denotes.
\<close>

datatype pyfloat = Finite real | PosInf | NegInf | NaN

datatype pyval = PyInt int | PyFloat pyfloat | PyStr string | PyNone

text \<open>
  What a lookup in a row hands to \<^verbatim>\<open>float\<close>: one value, or the sub-series of two or more
  cells that pandas returns for a label that occurs more than once.
\<close>

datatype pyobj = Scalar pyval | SubSeries "pyval list"

text \<open>
  An exception of class \<^verbatim>\<open>Exception\<close>: its class name and the text \<^verbatim>\<open>str(e)\<close>
  that an f-string shows. Signals outside that class (\<^verbatim>\<open>KeyboardInterrupt\<close>,
  \<^verbatim>\<open>SystemExit\<close>) are not values of this type.
\<close>

datatype py_exception = PyExc (exc_class: string) (exc_str: string)

definition exc_bind :: "'e + 'a \<Rightarrow> ('a \<Rightarrow> 'e + 'b) \<Rightarrow> 'e + 'b" where
  "exc_bind m f = (case m of Inl e \<Rightarrow> Inl e | Inr x \<Rightarrow> f x)"

text \<open>\<^verbatim>\<open>s.startswith(p)\<close>, and \<^verbatim>\<open>s.startswith((p1, p2))\<close> with a tuple of prefixes.\<close>

definition startswith :: "string \<Rightarrow> string \<Rightarrow> bool" where
  "startswith s p = (take (length p) s = p)"

definition startswith_any :: "string \<Rightarrow> string list \<Rightarrow> bool" where
  "startswith_any s ps = list_ex (startswith s) ps"

text \<open>
  \<^verbatim>\<open>float(i)\<close> for an integer: the nearest float, ties to the even significand of 53
  bits; \<^verbatim>\<open>OverflowError\<close> when that is beyond the largest float.
\<close>

definition float_of_int :: "int \<Rightarrow> py_exception + pyfloat" where
  "float_of_int i =
     (let a = \<bar>i\<bar>; e = bitlen a - 53 in
      if e \<le> 0 then Inr (Finite (of_int i))
      else
        let sh = 2 ^ nat e; q = a div sh; r = a mod sh; half = sh div 2;
            m = (if half < r \<or> (r = half \<and> odd q) then q + 1 else q);
            v = m * sh
        in if 2 ^ 1024 \<le> v then
             Inl (PyExc ''OverflowError'' ''int too large to convert to float'')
           else Inr (Finite (of_int (sgn i * v))))"

text \<open>
  The builtin \<^verbatim>\<open>float(x)\<close>. An integer and a float convert; \<^verbatim>\<open>None\<close> and a sub-series
  raise \<^verbatim>\<open>TypeError\<close>. What a string converts to is the interpreter's number syntax,
  which is taken as the parameter \<open>float_of_str\<close>: the float, or the \<^verbatim>\<open>ValueError\<close>
  raised.
\<close>

type_synonym str_parser = "string \<Rightarrow> py_exception + pyfloat"

fun py_float :: "str_parser \<Rightarrow> pyobj \<Rightarrow> py_exception + pyfloat" where
  "py_float float_of_str (Scalar (PyInt i)) = float_of_int i"
| "py_float float_of_str (Scalar (PyFloat x)) = Inr x"
| "py_float float_of_str (Scalar (PyStr s)) = float_of_str s"
| "py_float float_of_str (Scalar PyNone) =
     Inl (PyExc ''TypeError''
       (''float() argument must be a string or a real number, not ''
          @ [CHR 0x27] @ ''NoneType'' @ [CHR 0x27]))"
| "py_float float_of_str (SubSeries vs) =
     Inl (PyExc ''TypeError''
       (''cannot convert the series to <class '' @ [CHR 0x27] @ ''float'' @ [CHR 0x27] @ ''>''))"

section \<open>The provider's table\<close>

text \<open>
  A pandas \<^verbatim>\<open>DataFrame\<close>: column labels and rows of cells. \<^verbatim>\<open>df.empty\<close> holds when
  either axis has length zero. \<^verbatim>\<open>df.iloc[-1]\<close> is the last row as a \<^verbatim>\<open>Series\<close>
  labelled by the columns, and raises \<^verbatim>\<open>IndexError\<close> when there is no row.
  \<^verbatim>\<open>Series.get(key, default)\<close> is the default when no column has the label, the cell
  when one column has it, and the sub-series of the cells when several have it.
\<close>

record dataframe =
  columns :: "string list"
  rows :: "pyval list list"

type_synonym series = "(string \<times> pyval) list"

definition df_empty :: "dataframe \<Rightarrow> bool" where
  "df_empty df = (rows df = [] \<or> columns df = [])"

definition iloc_last :: "dataframe \<Rightarrow> py_exception + series" where
  "iloc_last df =
     (case rows df of
        [] \<Rightarrow> Inl (PyExc ''IndexError'' ''single positional indexer is out-of-bounds'')
      | r # rs \<Rightarrow> Inr (zip (columns df) (last (r # rs))))"

definition label_cells :: "series \<Rightarrow> string \<Rightarrow> pyval list" where
  "label_cells s key = map snd (filter (\<lambda>kv. fst kv = key) s)"

definition series_get :: "series \<Rightarrow> string \<Rightarrow> pyval \<Rightarrow> pyobj" where
  "series_get s key dflt =
     (case label_cells s key of
        [] \<Rightarrow> Scalar dflt
      | [v] \<Rightarrow> Scalar v
      | v # w # vs \<Rightarrow> SubSeries (v # w # vs))"

text \<open>
  The call \<^verbatim>\<open>ak.stock_individual_fund_flow(stock=..., market=...)\<close> is the external
  collaborator: for a stock code and a market it raises or returns a table.
\<close>

datatype fetch_outcome = Raises py_exception | Returns dataframe

type_synonym provider = "string \<Rightarrow> string \<Rightarrow> fetch_outcome"

section \<open>\<^verbatim>\<open>get_fund_flow_data\<close>\<close>

text \<open>Lines 23 to 28: the market of a stock code, or no market (the early \<^verbatim>\<open>return None\<close>).\<close>

definition market_of :: "string \<Rightarrow> string option" where
  "market_of stock_code =
     (if startswith stock_code ''60'' \<or> startswith stock_code ''68''
         \<or> startswith stock_code ''51'' then Some ''sh''
      else if startswith stock_code ''00'' \<or> startswith stock_code ''30'' then Some ''sz''
      else None)"

text \<open>
  The eight column labels read from the latest row (lines 41 to 48), as the UTF-8 bytes
  of the source's string literals.
\<close>

definition col_main_net_inflow :: string where
  "col_main_net_inflow = [
      CHR 0xE4, CHR 0xB8, CHR 0xBB, CHR 0xE5, CHR 0x8A, CHR 0x9B,
      CHR 0xE5, CHR 0x87, CHR 0x80, CHR 0xE6, CHR 0xB5, CHR 0x81,
      CHR 0xE5, CHR 0x85, CHR 0xA5, CHR 0x2D, CHR 0xE5, CHR 0x87,
      CHR 0x80, CHR 0xE9, CHR 0xA2, CHR 0x9D]"

definition col_super_large_net_inflow :: string where
  "col_super_large_net_inflow = [
      CHR 0xE8, CHR 0xB6, CHR 0x85, CHR 0xE5, CHR 0xA4, CHR 0xA7,
      CHR 0xE5, CHR 0x8D, CHR 0x95, CHR 0xE5, CHR 0x87, CHR 0x80,
      CHR 0xE6, CHR 0xB5, CHR 0x81, CHR 0xE5, CHR 0x85, CHR 0xA5,
      CHR 0x2D, CHR 0xE5, CHR 0x87, CHR 0x80, CHR 0xE9, CHR 0xA2,
      CHR 0x9D]"

definition col_large_net_inflow :: string where
  "col_large_net_inflow = [
      CHR 0xE5, CHR 0xA4, CHR 0xA7, CHR 0xE5, CHR 0x8D, CHR 0x95,
      CHR 0xE5, CHR 0x87, CHR 0x80, CHR 0xE6, CHR 0xB5, CHR 0x81,
      CHR 0xE5, CHR 0x85, CHR 0xA5, CHR 0x2D, CHR 0xE5, CHR 0x87,
      CHR 0x80, CHR 0xE9, CHR 0xA2, CHR 0x9D]"

definition col_medium_net_inflow :: string where
  "col_medium_net_inflow = [
      CHR 0xE4, CHR 0xB8, CHR 0xAD, CHR 0xE5, CHR 0x8D, CHR 0x95,
      CHR 0xE5, CHR 0x87, CHR 0x80, CHR 0xE6, CHR 0xB5, CHR 0x81,
      CHR 0xE5, CHR 0x85, CHR 0xA5, CHR 0x2D, CHR 0xE5, CHR 0x87,
      CHR 0x80, CHR 0xE9, CHR 0xA2, CHR 0x9D]"

definition col_small_net_inflow :: string where
  "col_small_net_inflow = [
      CHR 0xE5, CHR 0xB0, CHR 0x8F, CHR 0xE5, CHR 0x8D, CHR 0x95,
      CHR 0xE5, CHR 0x87, CHR 0x80, CHR 0xE6, CHR 0xB5, CHR 0x81,
      CHR 0xE5, CHR 0x85, CHR 0xA5, CHR 0x2D, CHR 0xE5, CHR 0x87,
      CHR 0x80, CHR 0xE9, CHR 0xA2, CHR 0x9D]"

definition col_net_inflow_ratio :: string where
  "col_net_inflow_ratio = [
      CHR 0xE4, CHR 0xB8, CHR 0xBB, CHR 0xE5, CHR 0x8A, CHR 0x9B,
      CHR 0xE5, CHR 0x87, CHR 0x80, CHR 0xE6, CHR 0xB5, CHR 0x81,
      CHR 0xE5, CHR 0x85, CHR 0xA5, CHR 0x2D, CHR 0xE5, CHR 0x87,
      CHR 0x80, CHR 0xE5, CHR 0x8D, CHR 0xA0, CHR 0xE6, CHR 0xAF,
      CHR 0x94]"

definition col_active_buy_amount :: string where
  "col_active_buy_amount = [
      CHR 0xE4, CHR 0xB8, CHR 0xBB, CHR 0xE5, CHR 0x8A, CHR 0x9B,
      CHR 0xE4, CHR 0xB9, CHR 0xB0, CHR 0xE5, CHR 0x85, CHR 0xA5,
      CHR 0xE6, CHR 0x88, CHR 0x90, CHR 0xE4, CHR 0xBA, CHR 0xA4,
      CHR 0xE9, CHR 0xA2, CHR 0x9D]"

definition col_active_sell_amount :: string where
  "col_active_sell_amount = [
      CHR 0xE4, CHR 0xB8, CHR 0xBB, CHR 0xE5, CHR 0x8A, CHR 0x9B,
      CHR 0xE5, CHR 0x8D, CHR 0x96, CHR 0xE5, CHR 0x87, CHR 0xBA,
      CHR 0xE6, CHR 0x88, CHR 0x90, CHR 0xE4, CHR 0xBA, CHR 0xA4,
      CHR 0xE9, CHR 0xA2, CHR 0x9D]"

text \<open>
  Lines 40 to 49: the dictionary literal. Its eight entries are evaluated in order, each
  \<^verbatim>\<open>float(latest_data.get(label, 0))\<close>, and the first conversion that raises leaves the
  literal. A Python dictionary keeps insertion order, so it is a list of entries.
\<close>

type_synonym pydict = "(string \<times> pyval) list"

definition fund_flow_of :: "str_parser \<Rightarrow> series \<Rightarrow> py_exception + pydict" where
  "fund_flow_of float_of_str latest_data =
     exc_bind (py_float float_of_str (series_get latest_data col_main_net_inflow (PyInt 0))) (\<lambda>v1.
     exc_bind (py_float float_of_str (series_get latest_data col_super_large_net_inflow (PyInt 0))) (\<lambda>v2.
     exc_bind (py_float float_of_str (series_get latest_data col_large_net_inflow (PyInt 0))) (\<lambda>v3.
     exc_bind (py_float float_of_str (series_get latest_data col_medium_net_inflow (PyInt 0))) (\<lambda>v4.
     exc_bind (py_float float_of_str (series_get latest_data col_small_net_inflow (PyInt 0))) (\<lambda>v5.
     exc_bind (py_float float_of_str (series_get latest_data col_net_inflow_ratio (PyInt 0))) (\<lambda>v6.
     exc_bind (py_float float_of_str (series_get latest_data col_active_buy_amount (PyInt 0))) (\<lambda>v7.
     exc_bind (py_float float_of_str (series_get latest_data col_active_sell_amount (PyInt 0))) (\<lambda>v8.
     Inr [(''main_net_inflow'', PyFloat v1),
          (''super_large_net_inflow'', PyFloat v2),
          (''large_net_inflow'', PyFloat v3),
          (''medium_net_inflow'', PyFloat v4),
          (''small_net_inflow'', PyFloat v5),
          (''net_inflow_ratio'', PyFloat v6),
          (''active_buy_amount'', PyFloat v7),
          (''active_sell_amount'', PyFloat v8)]))))))))"

text \<open>
  Lines 22 to 51, the body of the \<^verbatim>\<open>try\<close>: it returns \<^verbatim>\<open>None\<close> or the dictionary
  (\<open>Inr\<close>), or an exception leaves it (\<open>Inl\<close>).
\<close>

definition get_fund_flow_data_try ::
  "provider \<Rightarrow> str_parser \<Rightarrow> string \<Rightarrow> py_exception + pydict option" where
  "get_fund_flow_data_try ak float_of_str stock_code =
     (case market_of stock_code of
        None \<Rightarrow> Inr None
      | Some market \<Rightarrow>
          (case ak stock_code market of
             Raises e \<Rightarrow> Inl e
           | Returns df \<Rightarrow>
               if df_empty df then Inr None
               else exc_bind (iloc_last df) (\<lambda>latest_data.
                    exc_bind (fund_flow_of float_of_str latest_data) (\<lambda>fund_flow.
                    Inr (Some fund_flow)))))"

text \<open>
  Lines 21 and 53 to 55: the handler \<^verbatim>\<open>except Exception as e\<close> prints one line to the
  error stream and returns \<^verbatim>\<open>None\<close>. The result is the lines written to the error
  stream and the value returned.
\<close>

definition error_line :: "string \<Rightarrow> py_exception \<Rightarrow> string" where
  "error_line stock_code e =
     ''Error getting fund flow data for '' @ stock_code @ '': '' @ exc_str e"

definition get_fund_flow_data ::
  "provider \<Rightarrow> str_parser \<Rightarrow> string \<Rightarrow> string list \<times> pydict option" where
  "get_fund_flow_data ak float_of_str stock_code =
     (case get_fund_flow_data_try ak float_of_str stock_code of
        Inr result \<Rightarrow> ([], result)
      | Inl e \<Rightarrow> ([error_line stock_code e], None))"

section \<open>\<^verbatim>\<open>main\<close>\<close>

text \<open>
  What a run of the process leaves behind: the lines printed on standard output, the
  lines printed on the error stream, and the exit status. A printed line is a text or
  the dictionary handed to \<^verbatim>\<open>json.dumps\<close>; the rendering of a float as text is left
  to the library.
\<close>

datatype out_line = Text string | Json pydict

record process =
  stdout :: "out_line list"
  stderr :: "string list"
  exit_code :: int

definition usage_line :: string where
  "usage_line = ''Usage: python akshare_fund_flow.py <stock_code>''"

text \<open>Lines 76 to 85: the dictionary literal of the \<^verbatim>\<open>else\<close> branch, eight integers.\<close>

definition zero_snapshot :: pydict where
  "zero_snapshot =
     [(''main_net_inflow'', PyInt 0),
      (''super_large_net_inflow'', PyInt 0),
      (''large_net_inflow'', PyInt 0),
      (''medium_net_inflow'', PyInt 0),
      (''small_net_inflow'', PyInt 0),
      (''net_inflow_ratio'', PyInt 0),
      (''active_buy_amount'', PyInt 0),
      (''active_sell_amount'', PyInt 0)]"

text \<open>Lines 66 to 69: the stock code without a leading \<^verbatim>\<open>SH\<close> or \<^verbatim>\<open>SZ\<close>.\<close>

definition stock_code_of :: "string \<Rightarrow> string" where
  "stock_code_of stock_code_input =
     (if startswith_any stock_code_input [''SH'', ''SZ''] then drop 2 stock_code_input
      else stock_code_input)"

text \<open>
  Lines 59 to 85. \<open>argv\<close> is \<^verbatim>\<open>sys.argv\<close>, the script's name first. \<^verbatim>\<open>sys.exit(1)\<close>
  ends the process with status 1; a run that reaches the end of \<^verbatim>\<open>main\<close> ends with
  status 0. The test \<^verbatim>\<open>if fund_flow_data\<close> is false for \<^verbatim>\<open>None\<close> and for an empty
  dictionary.
\<close>

definition main :: "provider \<Rightarrow> str_parser \<Rightarrow> string list \<Rightarrow> process" where
  "main ak float_of_str argv =
     (if length argv \<noteq> 2 then
        \<lparr>stdout = [Text usage_line], stderr = [], exit_code = 1\<rparr>
      else
        let stock_code_input = argv ! 1;
            stock_code = stock_code_of stock_code_input;
            (err, fund_flow_data) = get_fund_flow_data ak float_of_str stock_code
        in (case fund_flow_data of
              Some d \<Rightarrow>
                if d \<noteq> [] then \<lparr>stdout = [Json d], stderr = err, exit_code = 0\<rparr>
                else \<lparr>stdout = [Json zero_snapshot], stderr = err, exit_code = 0\<rparr>
            | None \<Rightarrow> \<lparr>stdout = [Json zero_snapshot], stderr = err, exit_code = 0\<rparr>))"

text \<open>The eight canonical field names, in the order of both dictionary literals.\<close>

definition canonical_fields :: "string list" where
  "canonical_fields =
     [''main_net_inflow'', ''super_large_net_inflow'', ''large_net_inflow'',
      ''medium_net_inflow'', ''small_net_inflow'', ''net_inflow_ratio'',
      ''active_buy_amount'', ''active_sell_amount'']"

text \<open>
  The Python type of a value: \<^verbatim>\<open>int\<close> or \<^verbatim>\<open>float\<close>. A NaN and the infinities are of
  type \<^verbatim>\<open>float\<close>, but they are not numbers: \<^verbatim>\<open>json.dumps\<close> prints them as the tokens
  \<^verbatim>\<open>NaN\<close>, \<^verbatim>\<open>Infinity\<close> and \<^verbatim>\<open>-Infinity\<close>, which JSON does not have.
\<close>

fun is_int_or_float :: "pyval \<Rightarrow> bool" where
  "is_int_or_float (PyInt i) = True"
| "is_int_or_float (PyFloat x) = True"
| "is_int_or_float (PyStr s) = False"
| "is_int_or_float PyNone = False"

fun is_float :: "pyval \<Rightarrow> bool" where
  "is_float (PyFloat x) = True"
| "is_float v = False"

fun is_finite_number :: "pyval \<Rightarrow> bool" where
  "is_finite_number (PyInt i) = True"
| "is_finite_number (PyFloat (Finite x)) = True"
| "is_finite_number v = False"

text \<open>The eight labels looked up in the latest row, in the order of lines 41 to 48.\<close>

definition source_labels :: "string list" where
  "source_labels =
     [col_main_net_inflow, col_super_large_net_inflow, col_large_net_inflow,
      col_medium_net_inflow, col_small_net_inflow, col_net_inflow_ratio,
      col_active_buy_amount, col_active_sell_amount]"

section \<open>Collaborators for concrete runs\<close>

text \<open>
  A provider that answers every call with the same outcome, and a string conversion for
  tables whose text cells hold no number (such as \<^verbatim>\<open>'-'\<close>), where \<^verbatim>\<open>float\<close> raises
  \<^verbatim>\<open>ValueError\<close>.
\<close>

definition const_provider :: "fetch_outcome \<Rightarrow> provider" where
  "const_provider outcome stock market = outcome"

definition no_numeral :: str_parser where
  "no_numeral s =
     Inl (PyExc ''ValueError''
       (''could not convert string to float: '' @ [CHR 0x27] @ s @ [CHR 0x27]))"


section \<open>Classification\<close>

lemma startswith_iff: "startswith s p \<longleftrightarrow> (\<exists>rest. s = p @ rest)"
proof
  assume "startswith s p"
  then have "s = p @ drop (length p) s"
    by (metis append_take_drop_id startswith_def)
  then show "\<exists>rest. s = p @ rest" ..
next
  assume "\<exists>rest. s = p @ rest"
  then show "startswith s p" by (auto simp: startswith_def)
qed

lemma startswith_Cons: "startswith s (c # p) \<Longrightarrow> s \<noteq> [] \<and> hd s = c"
  by (cases s) (auto simp: startswith_def)

lemma market_of_hd:
  "market_of s \<noteq> None \<Longrightarrow> s \<noteq> [] \<and> hd s \<in> set ''0123456789''"
  by (auto simp: market_of_def split: if_splits dest!: startswith_Cons)

text \<open>
  C1. A stock code that starts with 60, 68 or 51 is classified \<open>sh\<close>; one that starts with
  00 or 30 is classified \<open>sz\<close>; every other string, the empty string and strings without
  digits among them, has no market. The classification is a function of the string alone
  and has one of these three results on every string.
\<close>

theorem market_of_classification:
  "(market_of s = Some ''sh'' \<longleftrightarrow>
      (\<exists>rest. s = ''60'' @ rest \<or> s = ''68'' @ rest \<or> s = ''51'' @ rest))
   \<and> (market_of s = Some ''sz'' \<longleftrightarrow> (\<exists>rest. s = ''00'' @ rest \<or> s = ''30'' @ rest))
   \<and> (market_of s = None \<longleftrightarrow>
      \<not> (\<exists>rest. s = ''60'' @ rest \<or> s = ''68'' @ rest \<or> s = ''51'' @ rest
                 \<or> s = ''00'' @ rest \<or> s = ''30'' @ rest))
   \<and> market_of s \<in> {Some ''sh'', Some ''sz'', None}
   \<and> market_of [] = None
   \<and> ((\<forall>c \<in> set s. c \<notin> set ''0123456789'') \<longrightarrow> market_of s = None)"
proof (intro conjI)
  show "market_of s = Some ''sh'' \<longleftrightarrow>
      (\<exists>rest. s = ''60'' @ rest \<or> s = ''68'' @ rest \<or> s = ''51'' @ rest)"
    by (auto simp: market_of_def startswith_iff)
  show "market_of s = Some ''sz'' \<longleftrightarrow> (\<exists>rest. s = ''00'' @ rest \<or> s = ''30'' @ rest)"
    by (auto simp: market_of_def startswith_iff)
  show "market_of s = None \<longleftrightarrow>
      \<not> (\<exists>rest. s = ''60'' @ rest \<or> s = ''68'' @ rest \<or> s = ''51'' @ rest
                 \<or> s = ''00'' @ rest \<or> s = ''30'' @ rest)"
    by (auto simp: market_of_def startswith_iff)
  show "market_of s \<in> {Some ''sh'', Some ''sz'', None}"
    by (simp add: market_of_def)
  show "market_of [] = None"
    by (simp add: market_of_def startswith_def)
  show "(\<forall>c \<in> set s. c \<notin> set ''0123456789'') \<longrightarrow> market_of s = None"
  proof
    assume nd: "\<forall>c \<in> set s. c \<notin> set ''0123456789''"
    show "market_of s = None"
    proof (rule ccontr)
      assume "market_of s \<noteq> None"
      then have "s \<noteq> []" and "hd s \<in> set ''0123456789''"
        using market_of_hd by blast+
      with nd show False
        using hd_in_set by blast
    qed
  qed
qed

theorem market_of_classification_witness:
  "market_of ''600000'' = Some ''sh'' \<and> market_of ''688001'' = Some ''sh''
   \<and> market_of ''510300'' = Some ''sh'' \<and> market_of ''000001'' = Some ''sz''
   \<and> market_of ''300750'' = Some ''sz'' \<and> market_of ''990001'' = None
   \<and> market_of ''abc'' = None"
proof -
  have "market_of ''600000'' = Some ''sh''"
    using market_of_classification [of "''600000''"] by simp
  moreover have "market_of ''688001'' = Some ''sh''"
    using market_of_classification [of "''688001''"] by simp
  moreover have "market_of ''510300'' = Some ''sh''"
    using market_of_classification [of "''510300''"] by simp
  moreover have "market_of ''000001'' = Some ''sz''"
    using market_of_classification [of "''000001''"] by simp
  moreover have "market_of ''300750'' = Some ''sz''"
    using market_of_classification [of "''300750''"] by simp
  moreover have "market_of ''990001'' = None"
    using market_of_classification [of "''990001''"] by simp
  moreover have "market_of ''abc'' = None"
    using market_of_classification [of "''abc''"] by simp
  ultimately show ?thesis by blast
qed

section \<open>The two functions, case by case\<close>

lemma main_one_argument:
  "length argv = 2 \<Longrightarrow>
   main ak fs argv =
     (case snd (get_fund_flow_data ak fs (stock_code_of (argv ! 1))) of
        Some d \<Rightarrow> \<lparr>stdout = [Json (if d \<noteq> [] then d else zero_snapshot)],
                   stderr = fst (get_fund_flow_data ak fs (stock_code_of (argv ! 1))),
                   exit_code = 0\<rparr>
      | None \<Rightarrow> \<lparr>stdout = [Json zero_snapshot],
                 stderr = fst (get_fund_flow_data ak fs (stock_code_of (argv ! 1))),
                 exit_code = 0\<rparr>)"
  by (simp add: main_def Let_def split: prod.splits option.splits)

lemma get_fund_flow_data_unsupported:
  "market_of stock_code = None \<Longrightarrow> get_fund_flow_data ak fs stock_code = ([], None)"
  by (simp add: get_fund_flow_data_def get_fund_flow_data_try_def)

lemma get_fund_flow_data_empty:
  "market_of stock_code = Some market \<Longrightarrow> ak stock_code market = Returns df \<Longrightarrow> df_empty df \<Longrightarrow>
   get_fund_flow_data ak fs stock_code = ([], None)"
  by (simp add: get_fund_flow_data_def get_fund_flow_data_try_def)

lemma get_fund_flow_data_raises:
  "market_of stock_code = Some market \<Longrightarrow> ak stock_code market = Raises e \<Longrightarrow>
   get_fund_flow_data ak fs stock_code = ([error_line stock_code e], None)"
  by (simp add: get_fund_flow_data_def get_fund_flow_data_try_def)

lemma get_fund_flow_data_row:
  "market_of stock_code = Some market \<Longrightarrow> ak stock_code market = Returns df \<Longrightarrow> \<not> df_empty df \<Longrightarrow>
   get_fund_flow_data ak fs stock_code =
     (case fund_flow_of fs (zip (columns df) (last (rows df))) of
        Inr d \<Rightarrow> ([], Some d)
      | Inl e \<Rightarrow> ([error_line stock_code e], None))"
  by (auto simp: get_fund_flow_data_def get_fund_flow_data_try_def df_empty_def iloc_last_def
      exc_bind_def split: list.splits sum.splits)

section \<open>The default snapshot\<close>

text \<open>
  C2. A run with one argument whose stock code has no market, or whose table is empty, or
  whose provider call raises, prints the dictionary of eight zeros as its one line of
  standard output and ends with status 0.
\<close>

theorem main_zero_snapshot:
  assumes "length argv = 2"
    and "market_of (stock_code_of (argv ! 1)) = None
         \<or> (\<exists>market df. market_of (stock_code_of (argv ! 1)) = Some market
               \<and> ak (stock_code_of (argv ! 1)) market = Returns df \<and> df_empty df)
         \<or> (\<exists>market e. market_of (stock_code_of (argv ! 1)) = Some market
               \<and> ak (stock_code_of (argv ! 1)) market = Raises e)"
  shows "stdout (main ak fs argv) = [Json zero_snapshot]
         \<and> exit_code (main ak fs argv) = 0
         \<and> map fst zero_snapshot = canonical_fields
         \<and> map snd zero_snapshot = replicate 8 (PyInt 0)"
proof -
  from assms(2) have "snd (get_fund_flow_data ak fs (stock_code_of (argv ! 1))) = None"
    using get_fund_flow_data_unsupported get_fund_flow_data_empty get_fund_flow_data_raises
    by (metis snd_conv)
  with assms(1) have "stdout (main ak fs argv) = [Json zero_snapshot]"
    and "exit_code (main ak fs argv) = 0"
    by (simp_all add: main_one_argument)
  moreover have "map fst zero_snapshot = canonical_fields"
    by (simp add: zero_snapshot_def canonical_fields_def)
  moreover have "map snd zero_snapshot = replicate 8 (PyInt 0)"
    by (simp add: zero_snapshot_def eval_nat_numeral)
  ultimately show ?thesis by simp
qed

theorem main_zero_snapshot_witness:
  "stdout (main (const_provider (Raises (PyExc ''ConnectionError'' ''timed out''))) no_numeral
     [''akshare_fund_flow.py'', ''990001'']) = [Json zero_snapshot]
   \<and> exit_code (main (const_provider (Raises (PyExc ''ConnectionError'' ''timed out''))) no_numeral
     [''akshare_fund_flow.py'', ''990001'']) = 0
   \<and> stdout (main (const_provider (Returns \<lparr>columns = [col_main_net_inflow], rows = []\<rparr>))
     no_numeral [''akshare_fund_flow.py'', ''600000'']) = [Json zero_snapshot]
   \<and> stdout (main (const_provider (Raises (PyExc ''ConnectionError'' ''timed out''))) no_numeral
     [''akshare_fund_flow.py'', ''600000'']) = [Json zero_snapshot]"
proof -
  have l9: "length [''akshare_fund_flow.py'', ''990001''] = 2"
    and l6: "length [''akshare_fund_flow.py'', ''600000''] = 2"
    by simp_all
  have none: "market_of (stock_code_of ([''akshare_fund_flow.py'', ''990001''] ! 1)) = None"
    by (simp add: stock_code_of_def startswith_any_def startswith_def market_of_def)
  have sh: "market_of (stock_code_of ([''akshare_fund_flow.py'', ''600000''] ! 1)) = Some ''sh''"
    by (simp add: stock_code_of_def startswith_any_def startswith_def market_of_def)
  have unsupported: "stdout (main (const_provider (Raises (PyExc ''ConnectionError'' ''timed out'')))
      no_numeral [''akshare_fund_flow.py'', ''990001'']) = [Json zero_snapshot]
    \<and> exit_code (main (const_provider (Raises (PyExc ''ConnectionError'' ''timed out'')))
      no_numeral [''akshare_fund_flow.py'', ''990001'']) = 0"
    using main_zero_snapshot [of "[''akshare_fund_flow.py'', ''990001'']"
        "const_provider (Raises (PyExc ''ConnectionError'' ''timed out''))" no_numeral] l9 none
    by blast
  have "\<exists>market df. market_of (stock_code_of ([''akshare_fund_flow.py'', ''600000''] ! 1))
          = Some market
        \<and> const_provider (Returns \<lparr>columns = [col_main_net_inflow], rows = []\<rparr>)
             (stock_code_of ([''akshare_fund_flow.py'', ''600000''] ! 1)) market = Returns df
        \<and> df_empty df"
    using sh by (simp add: const_provider_def df_empty_def)
  then have empty: "stdout (main
      (const_provider (Returns \<lparr>columns = [col_main_net_inflow], rows = []\<rparr>))
      no_numeral [''akshare_fund_flow.py'', ''600000'']) = [Json zero_snapshot]"
    using main_zero_snapshot [of "[''akshare_fund_flow.py'', ''600000'']"
        "const_provider (Returns \<lparr>columns = [col_main_net_inflow], rows = []\<rparr>)" no_numeral] l6
    by blast
  have "\<exists>market e. market_of (stock_code_of ([''akshare_fund_flow.py'', ''600000''] ! 1))
          = Some market
        \<and> const_provider (Raises (PyExc ''ConnectionError'' ''timed out''))
             (stock_code_of ([''akshare_fund_flow.py'', ''600000''] ! 1)) market = Raises e"
    using sh by (simp add: const_provider_def)
  then have raises: "stdout (main
      (const_provider (Raises (PyExc ''ConnectionError'' ''timed out'')))
      no_numeral [''akshare_fund_flow.py'', ''600000'']) = [Json zero_snapshot]"
    using main_zero_snapshot [of "[''akshare_fund_flow.py'', ''600000'']"
        "const_provider (Raises (PyExc ''ConnectionError'' ''timed out''))" no_numeral] l6
    by blast
  from unsupported empty raises show ?thesis by blast
qed

section \<open>The exchange label\<close>

lemma digits_not_label:
  assumes "\<forall>c \<in> set t. c \<in> set ''0123456789''"
  shows "\<not> startswith_any t [''SH'', ''SZ'']"
proof
  assume "startswith_any t [''SH'', ''SZ'']"
  then have "startswith t ''SH'' \<or> startswith t ''SZ''"
    by (simp add: startswith_any_def)
  then have "t \<noteq> [] \<and> hd t = CHR ''S''"
    using startswith_Cons by blast
  then have "CHR ''S'' \<in> set t"
    using hd_in_set by metis
  with assms have "CHR ''S'' \<in> set ''0123456789''" by blast
  then show False by simp
qed

lemma stock_code_of_label:
  "stock_code_of (''SH'' @ t) = t" "stock_code_of (''SZ'' @ t) = t"
  by (simp_all add: stock_code_of_def startswith_any_def startswith_def)

lemma stock_code_of_lower:
  "stock_code_of (''sh'' @ t) = ''sh'' @ t" "stock_code_of (''sz'' @ t) = ''sz'' @ t"
  by (simp_all add: stock_code_of_def startswith_any_def startswith_def)

text \<open>
  C5. For a ticker \<open>t\<close> of digits, the arguments \<open>SH\<close> followed by \<open>t\<close>, \<open>SZ\<close> followed by
  \<open>t\<close>, and \<open>t\<close> itself give the same stock code \<open>t\<close>, hence the same market and the same
  run: two characters are dropped after an upper-case \<open>SH\<close> or \<open>SZ\<close> and nowhere else (a
  lower-case label stays), and the market comes from the digits that remain. \<open>SH600000\<close>
  and \<open>600000\<close> are both classified \<open>sh\<close>.
\<close>

theorem label_stripping:
  assumes "\<forall>c \<in> set t. c \<in> set ''0123456789''"
  shows "stock_code_of (''SH'' @ t) = t \<and> stock_code_of (''SZ'' @ t) = t \<and> stock_code_of t = t
         \<and> market_of (stock_code_of (''SH'' @ t)) = market_of t
         \<and> market_of (stock_code_of (''SZ'' @ t)) = market_of t
         \<and> market_of (stock_code_of t) = market_of t
         \<and> main ak fs [prog, ''SH'' @ t] = main ak fs [prog, t]
         \<and> main ak fs [prog, ''SZ'' @ t] = main ak fs [prog, t]
         \<and> stock_code_of (''sh'' @ t) = ''sh'' @ t \<and> stock_code_of (''sz'' @ t) = ''sz'' @ t
         \<and> market_of (stock_code_of ''SH600000'') = Some ''sh''
         \<and> market_of (stock_code_of ''600000'') = Some ''sh''"
proof -
  have plain: "stock_code_of t = t"
    using digits_not_label [OF assms] by (simp add: stock_code_of_def)
  have sh: "stock_code_of (''SH'' @ t) = t" and sz: "stock_code_of (''SZ'' @ t) = t"
    by (rule stock_code_of_label)+
  have m1: "main ak fs [prog, ''SH'' @ t] = main ak fs [prog, t]"
    using sh plain by (simp add: main_def)
  have m2: "main ak fs [prog, ''SZ'' @ t] = main ak fs [prog, t]"
    using sz plain by (simp add: main_def)
  have c1: "market_of (stock_code_of ''SH600000'') = Some ''sh''"
    by (simp add: stock_code_of_def startswith_any_def startswith_def market_of_def)
  have c2: "market_of (stock_code_of ''600000'') = Some ''sh''"
    by (simp add: stock_code_of_def startswith_any_def startswith_def market_of_def)
  show ?thesis
    using plain sh sz m1 m2 c1 c2 stock_code_of_lower [of t] by simp
qed

theorem label_stripping_witness:
  "market_of (stock_code_of (''SZ'' @ ''000001'')) = market_of ''000001''
   \<and> stock_code_of (''SH'' @ ''000001'') = ''000001''
   \<and> market_of (stock_code_of (''SH'' @ ''000001'')) = Some ''sz''"
proof -
  have d: "\<forall>c \<in> set ''000001''. c \<in> set ''0123456789''" by simp
  have "market_of ''000001'' = Some ''sz''"
    by (simp add: market_of_def startswith_def)
  then show ?thesis
    using label_stripping [OF d] by simp
qed

section \<open>Failures of the provider and of the invocation\<close>



text \<open>
  C9. A run whose \<open>argv\<close> does not hold the script name and exactly one argument prints the
  usage line on standard output, prints no dictionary, and ends with status 1.
\<close>

theorem main_usage_error:
  assumes "length argv \<noteq> 2"
  shows "main ak fs argv = \<lparr>stdout = [Text usage_line], stderr = [], exit_code = 1\<rparr>
         \<and> (\<forall>d. Json d \<notin> set (stdout (main ak fs argv)))
         \<and> exit_code (main ak fs argv) = 1"
  using assms by (simp add: main_def)

theorem main_usage_error_witness:
  "main (const_provider (Raises (PyExc ''ConnectionError'' ''timed out''))) no_numeral
     [''akshare_fund_flow.py''] =
     \<lparr>stdout = [Text usage_line], stderr = [], exit_code = 1\<rparr>
   \<and> main (const_provider (Raises (PyExc ''ConnectionError'' ''timed out''))) no_numeral
     [''akshare_fund_flow.py'', ''600000'', ''000001''] =
     \<lparr>stdout = [Text usage_line], stderr = [], exit_code = 1\<rparr>"
  using main_usage_error [of "[''akshare_fund_flow.py'']"
      "const_provider (Raises (PyExc ''ConnectionError'' ''timed out''))" no_numeral]
    main_usage_error [of "[''akshare_fund_flow.py'', ''600000'', ''000001'']"
      "const_provider (Raises (PyExc ''ConnectionError'' ''timed out''))" no_numeral]
  by simp

section \<open>The dictionary built from the latest row\<close>

lemma float_of_int_small: "\<bar>i\<bar> < 2 ^ 53 \<Longrightarrow> float_of_int i = Inr (Finite (of_int i))"
proof -
  assume "\<bar>i\<bar> < 2 ^ 53"
  then have "bitlen \<bar>i\<bar> \<le> 53"
    using bitlen_le_iff_power [of "\<bar>i\<bar>" 53] by simp
  then show ?thesis by (simp add: float_of_int_def Let_def)
qed

lemma float_of_int_0: "float_of_int 0 = Inr (Finite 0)"
  using float_of_int_small [of 0] by simp

lemma field_absent:
  "label_cells latest_data label = [] \<Longrightarrow>
   py_float fs (series_get latest_data label (PyInt 0)) = Inr (Finite 0)"
  by (simp add: series_get_def float_of_int_0)

lemma field_present:
  "label_cells latest_data label = [v] \<Longrightarrow>
   py_float fs (series_get latest_data label (PyInt 0)) = py_float fs (Scalar v)"
  by (simp add: series_get_def)

lemma field_repeated:
  "2 \<le> length (label_cells latest_data label) \<Longrightarrow>
   \<exists>e. py_float fs (series_get latest_data label (PyInt 0)) = Inl e"
  by (cases "label_cells latest_data label" rule: remdups_adj.cases)
     (simp_all add: series_get_def)

lemma exc_bind_Inr_iff:
  "exc_bind m f = Inr y \<longleftrightarrow> (\<exists>x. m = Inr x \<and> f x = Inr y)"
  by (cases m) (simp_all add: exc_bind_def)

lemma exc_bind_Inr: "exc_bind (Inr x) f = f x"
  by (simp add: exc_bind_def)

lemma fund_flow_of_Inr:
  assumes "fund_flow_of fs latest_data = Inr d"
  shows "\<exists>v1 v2 v3 v4 v5 v6 v7 v8.
           py_float fs (series_get latest_data col_main_net_inflow (PyInt 0)) = Inr v1
         \<and> py_float fs (series_get latest_data col_super_large_net_inflow (PyInt 0)) = Inr v2
         \<and> py_float fs (series_get latest_data col_large_net_inflow (PyInt 0)) = Inr v3
         \<and> py_float fs (series_get latest_data col_medium_net_inflow (PyInt 0)) = Inr v4
         \<and> py_float fs (series_get latest_data col_small_net_inflow (PyInt 0)) = Inr v5
         \<and> py_float fs (series_get latest_data col_net_inflow_ratio (PyInt 0)) = Inr v6
         \<and> py_float fs (series_get latest_data col_active_buy_amount (PyInt 0)) = Inr v7
         \<and> py_float fs (series_get latest_data col_active_sell_amount (PyInt 0)) = Inr v8
         \<and> d = [(''main_net_inflow'', PyFloat v1),
                  (''super_large_net_inflow'', PyFloat v2),
                  (''large_net_inflow'', PyFloat v3),
                  (''medium_net_inflow'', PyFloat v4),
                  (''small_net_inflow'', PyFloat v5),
                  (''net_inflow_ratio'', PyFloat v6),
                  (''active_buy_amount'', PyFloat v7),
                  (''active_sell_amount'', PyFloat v8)]"
  using assms unfolding fund_flow_of_def exc_bind_Inr_iff by blast

lemma fund_flow_of_shape:
  assumes "fund_flow_of fs latest_data = Inr d"
  shows "map fst d = canonical_fields \<and> list_all is_float (map snd d) \<and> d \<noteq> []"
proof -
  from fund_flow_of_Inr [OF assms] obtain v1 v2 v3 v4 v5 v6 v7 v8 where
    "d = [(''main_net_inflow'', PyFloat v1),
                  (''super_large_net_inflow'', PyFloat v2),
                  (''large_net_inflow'', PyFloat v3),
                  (''medium_net_inflow'', PyFloat v4),
                  (''small_net_inflow'', PyFloat v5),
                  (''net_inflow_ratio'', PyFloat v6),
                  (''active_buy_amount'', PyFloat v7),
                  (''active_sell_amount'', PyFloat v8)]"
    by blast
  then show ?thesis by (simp add: canonical_fields_def)
qed

lemma field_value:
  assumes "\<forall>label \<in> set source_labels. label_cells latest_data label = []
             \<or> (\<exists>v. label_cells latest_data label = [v] \<and> py_float fs (Scalar v) = Inr (conv v))"
    and "label \<in> set source_labels"
  shows "py_float fs (series_get latest_data label (PyInt 0)) =
           Inr (case label_cells latest_data label of [] \<Rightarrow> Finite 0 | v # vs \<Rightarrow> conv v)"
proof -
  from assms consider "label_cells latest_data label = []"
    | v where "label_cells latest_data label = [v]" "py_float fs (Scalar v) = Inr (conv v)"
    by blast
  then show ?thesis
  proof cases
    case 1
    then show ?thesis by (simp add: field_absent)
  next
    case 2
    then show ?thesis by (simp add: field_present)
  qed
qed

lemma fund_flow_of_convertible:
  assumes "\<forall>label \<in> set source_labels. label_cells latest_data label = []
             \<or> (\<exists>v. label_cells latest_data label = [v] \<and> py_float fs (Scalar v) = Inr (conv v))"
  shows "fund_flow_of fs latest_data =
           Inr (map (\<lambda>(name, label).
                  (name, PyFloat (case label_cells latest_data label of
                                    [] \<Rightarrow> Finite 0 | v # vs \<Rightarrow> conv v)))
                (zip canonical_fields source_labels))"
proof -
  note fv = field_value [OF assms]
  have f1: "py_float fs (series_get latest_data col_main_net_inflow (PyInt 0)) =
      Inr (case label_cells latest_data col_main_net_inflow of [] \<Rightarrow> Finite 0 | v # vs \<Rightarrow> conv v)"
    by (rule fv) (simp add: source_labels_def)
  have f2: "py_float fs (series_get latest_data col_super_large_net_inflow (PyInt 0)) =
      Inr (case label_cells latest_data col_super_large_net_inflow of [] \<Rightarrow> Finite 0 | v # vs \<Rightarrow> conv v)"
    by (rule fv) (simp add: source_labels_def)
  have f3: "py_float fs (series_get latest_data col_large_net_inflow (PyInt 0)) =
      Inr (case label_cells latest_data col_large_net_inflow of [] \<Rightarrow> Finite 0 | v # vs \<Rightarrow> conv v)"
    by (rule fv) (simp add: source_labels_def)
  have f4: "py_float fs (series_get latest_data col_medium_net_inflow (PyInt 0)) =
      Inr (case label_cells latest_data col_medium_net_inflow of [] \<Rightarrow> Finite 0 | v # vs \<Rightarrow> conv v)"
    by (rule fv) (simp add: source_labels_def)
  have f5: "py_float fs (series_get latest_data col_small_net_inflow (PyInt 0)) =
      Inr (case label_cells latest_data col_small_net_inflow of [] \<Rightarrow> Finite 0 | v # vs \<Rightarrow> conv v)"
    by (rule fv) (simp add: source_labels_def)
  have f6: "py_float fs (series_get latest_data col_net_inflow_ratio (PyInt 0)) =
      Inr (case label_cells latest_data col_net_inflow_ratio of [] \<Rightarrow> Finite 0 | v # vs \<Rightarrow> conv v)"
    by (rule fv) (simp add: source_labels_def)
  have f7: "py_float fs (series_get latest_data col_active_buy_amount (PyInt 0)) =
      Inr (case label_cells latest_data col_active_buy_amount of [] \<Rightarrow> Finite 0 | v # vs \<Rightarrow> conv v)"
    by (rule fv) (simp add: source_labels_def)
  have f8: "py_float fs (series_get latest_data col_active_sell_amount (PyInt 0)) =
      Inr (case label_cells latest_data col_active_sell_amount of [] \<Rightarrow> Finite 0 | v # vs \<Rightarrow> conv v)"
    by (rule fv) (simp add: source_labels_def)
  show ?thesis
    unfolding fund_flow_of_def f1 f2 f3 f4 f5 f6 f7 f8 exc_bind_Inr
      canonical_fields_def source_labels_def
    by simp
qed

lemma fund_flow_of_unconvertible:
  assumes "label \<in> set source_labels"
    and "py_float fs (series_get latest_data label (PyInt 0)) = Inl e"
  shows "\<exists>e'. fund_flow_of fs latest_data = Inl e'"
proof (cases "fund_flow_of fs latest_data")
  case (Inl e')
  then show ?thesis by blast
next
  case (Inr d)
  from fund_flow_of_Inr [OF Inr] assms(1) have
    "\<exists>x. py_float fs (series_get latest_data label (PyInt 0)) = Inr x"
    unfolding source_labels_def by auto
  with assms(2) show ?thesis by simp
qed

text \<open>
  C3, as the code has it. For a table that is not empty and its last row: when each
  label of the eight is either on no column, or on one column whose cell \<^verbatim>\<open>float\<close>
  converts, the result is the dictionary of the eight fields, each holding the converted
  cell, and \<open>0.0\<close> where the row has no such label; a missing label alone never fails
  the record. When some label of the eight is on one column whose cell \<^verbatim>\<open>float\<close>
  rejects, or is on two or more columns, the conversion raises, the handler prints the
  error line and returns \<^verbatim>\<open>None\<close>, and \<^verbatim>\<open>main\<close> prints the dictionary of eight zeros
  in place of the record.
\<close>

theorem normalize_present_fields:
  assumes "length argv = 2" and "stock_code = stock_code_of (argv ! 1)"
    and "market_of stock_code = Some market"
    and "ak stock_code market = Returns df"
    and "\<not> df_empty df"
    and "latest_data = zip (columns df) (last (rows df))"
  shows "((\<forall>label \<in> set source_labels. label_cells latest_data label = []
             \<or> (\<exists>v. label_cells latest_data label = [v] \<and> py_float fs (Scalar v) = Inr (conv v))) \<longrightarrow>
           get_fund_flow_data ak fs stock_code =
             ([], Some (map (\<lambda>(name, label).
                    (name, PyFloat (case label_cells latest_data label of
                                      [] \<Rightarrow> Finite 0 | v # vs \<Rightarrow> conv v)))
                  (zip canonical_fields source_labels))))
       \<and> ((\<exists>label \<in> set source_labels.
             (\<exists>v e. label_cells latest_data label = [v] \<and> py_float fs (Scalar v) = Inl e)
             \<or> 2 \<le> length (label_cells latest_data label)) \<longrightarrow>
           (\<exists>e. get_fund_flow_data ak fs stock_code = ([error_line stock_code e], None))
           \<and> stdout (main ak fs argv) = [Json zero_snapshot])"
proof (intro conjI impI)
  have row: "get_fund_flow_data ak fs stock_code =
     (case fund_flow_of fs latest_data of
        Inr d \<Rightarrow> ([], Some d)
      | Inl e \<Rightarrow> ([error_line stock_code e], None))"
    using assms(3,4,5,6) get_fund_flow_data_row [of stock_code market ak df fs] by simp
  assume "\<forall>label \<in> set source_labels. label_cells latest_data label = []
             \<or> (\<exists>v. label_cells latest_data label = [v] \<and> py_float fs (Scalar v) = Inr (conv v))"
  then have "fund_flow_of fs latest_data = Inr (map (\<lambda>(name, label).
                    (name, PyFloat (case label_cells latest_data label of
                                      [] \<Rightarrow> Finite 0 | v # vs \<Rightarrow> conv v)))
                  (zip canonical_fields source_labels))"
    by (rule fund_flow_of_convertible)
  then show "get_fund_flow_data ak fs stock_code =
             ([], Some (map (\<lambda>(name, label).
                    (name, PyFloat (case label_cells latest_data label of
                                      [] \<Rightarrow> Finite 0 | v # vs \<Rightarrow> conv v)))
                  (zip canonical_fields source_labels)))"
    using row by simp
next
  have row: "get_fund_flow_data ak fs stock_code =
     (case fund_flow_of fs latest_data of
        Inr d \<Rightarrow> ([], Some d)
      | Inl e \<Rightarrow> ([error_line stock_code e], None))"
    using assms(3,4,5,6) get_fund_flow_data_row [of stock_code market ak df fs] by simp
  assume "\<exists>label \<in> set source_labels.
             (\<exists>v e. label_cells latest_data label = [v] \<and> py_float fs (Scalar v) = Inl e)
             \<or> 2 \<le> length (label_cells latest_data label)"
  then obtain label where l: "label \<in> set source_labels"
    and c: "(\<exists>v e. label_cells latest_data label = [v] \<and> py_float fs (Scalar v) = Inl e)
             \<or> 2 \<le> length (label_cells latest_data label)"
    by blast
  from c have "\<exists>e. py_float fs (series_get latest_data label (PyInt 0)) = Inl e"
  proof
    assume "\<exists>v e. label_cells latest_data label = [v] \<and> py_float fs (Scalar v) = Inl e"
    then show ?thesis using field_present by fastforce
  next
    assume "2 \<le> length (label_cells latest_data label)"
    then show ?thesis by (rule field_repeated)
  qed
  with l obtain e where "fund_flow_of fs latest_data = Inl e"
    using fund_flow_of_unconvertible by blast
  then have r: "get_fund_flow_data ak fs stock_code = ([error_line stock_code e], None)"
    using row by simp
  then show "\<exists>e. get_fund_flow_data ak fs stock_code = ([error_line stock_code e], None)"
    by blast
  from r assms(1,2) show "stdout (main ak fs argv) = [Json zero_snapshot]"
    by (simp add: main_one_argument)
qed

theorem normalize_present_fields_witness:
  "get_fund_flow_data
     (const_provider (Returns \<lparr>columns = [col_main_net_inflow, col_net_inflow_ratio],
        rows = [[PyFloat (Finite 1), PyFloat (Finite 2)], [PyFloat (Finite 12), PyInt 3]]\<rparr>))
     no_numeral ''600000''
   = ([], Some [(''main_net_inflow'', PyFloat (Finite 12)),
                (''super_large_net_inflow'', PyFloat (Finite 0)),
                (''large_net_inflow'', PyFloat (Finite 0)),
                (''medium_net_inflow'', PyFloat (Finite 0)),
                (''small_net_inflow'', PyFloat (Finite 0)),
                (''net_inflow_ratio'', PyFloat (Finite 3)),
                (''active_buy_amount'', PyFloat (Finite 0)),
                (''active_sell_amount'', PyFloat (Finite 0))])
   \<and> stdout (main
     (const_provider (Returns \<lparr>columns = [col_main_net_inflow, col_main_net_inflow],
        rows = [[PyFloat (Finite 1), PyFloat (Finite 2)]]\<rparr>))
     no_numeral [''akshare_fund_flow.py'', ''600000''])
   = [Json zero_snapshot]"
proof -
  let ?df = "\<lparr>columns = [col_main_net_inflow, col_net_inflow_ratio],
        rows = [[PyFloat (Finite 1), PyFloat (Finite 2)], [PyFloat (Finite 12), PyInt 3]]\<rparr>"
  let ?ld = "[(col_main_net_inflow, PyFloat (Finite 12)), (col_net_inflow_ratio, PyInt 3)]"
  let ?conv = "\<lambda>v. case v of PyFloat x \<Rightarrow> x | PyInt i \<Rightarrow> Finite (of_int i) | _ \<Rightarrow> NaN"
  let ?df2 = "\<lparr>columns = [col_main_net_inflow, col_main_net_inflow],
        rows = [[PyFloat (Finite 1), PyFloat (Finite 2)]]\<rparr>"
  let ?ld2 = "[(col_main_net_inflow, PyFloat (Finite 1)), (col_main_net_inflow, PyFloat (Finite 2))]"
  have a1: "length [''akshare_fund_flow.py'', ''600000''] = 2" by simp
  have a2: "''600000'' = stock_code_of ([''akshare_fund_flow.py'', ''600000''] ! 1)"
    by (simp add: stock_code_of_def startswith_any_def startswith_def)
  have a3: "market_of ''600000'' = Some ''sh''"
    by (simp add: market_of_def startswith_def)
  have a4: "const_provider (Returns ?df) ''600000'' ''sh'' = Returns ?df"
    by (simp add: const_provider_def)
  have a5: "\<not> df_empty ?df" by (simp add: df_empty_def)
  have a6: "?ld = zip (columns ?df) (last (rows ?df))" by simp
  have three: "float_of_int 3 = Inr (Finite 3)"
    using float_of_int_small [of 3] by simp
  have conv: "\<forall>label \<in> set source_labels. label_cells ?ld label = []
             \<or> (\<exists>v. label_cells ?ld label = [v] \<and> py_float no_numeral (Scalar v) = Inr (?conv v))"
    by (simp add: three label_cells_def source_labels_def col_main_net_inflow_def col_super_large_net_inflow_def
        col_large_net_inflow_def col_medium_net_inflow_def col_small_net_inflow_def
        col_net_inflow_ratio_def col_active_buy_amount_def col_active_sell_amount_def)
  have val: "map (\<lambda>(name, label).
                    (name, PyFloat (case label_cells ?ld label of
                                      [] \<Rightarrow> Finite 0 | v # vs \<Rightarrow> ?conv v)))
                  (zip canonical_fields source_labels) =
      [(''main_net_inflow'', PyFloat (Finite 12)),
                (''super_large_net_inflow'', PyFloat (Finite 0)),
                (''large_net_inflow'', PyFloat (Finite 0)),
                (''medium_net_inflow'', PyFloat (Finite 0)),
                (''small_net_inflow'', PyFloat (Finite 0)),
                (''net_inflow_ratio'', PyFloat (Finite 3)),
                (''active_buy_amount'', PyFloat (Finite 0)),
                (''active_sell_amount'', PyFloat (Finite 0))]"
    by (simp add: label_cells_def canonical_fields_def source_labels_def col_main_net_inflow_def col_super_large_net_inflow_def
        col_large_net_inflow_def col_medium_net_inflow_def col_small_net_inflow_def
        col_net_inflow_ratio_def col_active_buy_amount_def col_active_sell_amount_def)
  from normalize_present_fields [of "[''akshare_fund_flow.py'', ''600000'']" "''600000''"
      "''sh''" "const_provider (Returns ?df)" ?df ?ld no_numeral ?conv, OF a1 a2 a3 a4 a5 a6] conv
  have "get_fund_flow_data (const_provider (Returns ?df)) no_numeral ''600000'' =
      ([], Some (map (\<lambda>(name, label).
                    (name, PyFloat (case label_cells ?ld label of
                                      [] \<Rightarrow> Finite 0 | v # vs \<Rightarrow> ?conv v)))
                  (zip canonical_fields source_labels)))"
    by blast
  then have first: "get_fund_flow_data (const_provider (Returns ?df)) no_numeral ''600000'' =
      ([], Some [(''main_net_inflow'', PyFloat (Finite 12)),
                (''super_large_net_inflow'', PyFloat (Finite 0)),
                (''large_net_inflow'', PyFloat (Finite 0)),
                (''medium_net_inflow'', PyFloat (Finite 0)),
                (''small_net_inflow'', PyFloat (Finite 0)),
                (''net_inflow_ratio'', PyFloat (Finite 3)),
                (''active_buy_amount'', PyFloat (Finite 0)),
                (''active_sell_amount'', PyFloat (Finite 0))])"
    unfolding val .
  have b4: "const_provider (Returns ?df2) ''600000'' ''sh'' = Returns ?df2"
    by (simp add: const_provider_def)
  have b5: "\<not> df_empty ?df2" by (simp add: df_empty_def)
  have b6: "?ld2 = zip (columns ?df2) (last (rows ?df2))" by simp
  have rep: "\<exists>label \<in> set source_labels.
             (\<exists>v e. label_cells ?ld2 label = [v] \<and> py_float no_numeral (Scalar v) = Inl e)
             \<or> 2 \<le> length (label_cells ?ld2 label)"
    by (simp add: label_cells_def source_labels_def)
  from normalize_present_fields [of "[''akshare_fund_flow.py'', ''600000'']" "''600000''"
      "''sh''" "const_provider (Returns ?df2)" ?df2 ?ld2 no_numeral ?conv, OF a1 a2 a3 b4 b5 b6] rep
  have second: "stdout (main (const_provider (Returns ?df2)) no_numeral
      [''akshare_fund_flow.py'', ''600000'']) = [Json zero_snapshot]"
    by blast
  from first second show ?thesis by blast
qed

text \<open>
  The claim as stated fails: in a row whose main-force net inflow is the text \<open>-\<close> and
  whose large-order net inflow is \<open>5.0\<close>, the second field does not keep its value. The
  whole record is replaced by the dictionary of zeros.
\<close>

theorem normalize_bad_field_counterexample:
  "get_fund_flow_data
     (const_provider (Returns \<lparr>columns = [col_main_net_inflow, col_large_net_inflow],
                               rows = [[PyStr ''-'', PyFloat (Finite 5)]]\<rparr>))
     no_numeral ''600000''
   = ([''Error getting fund flow data for 600000: could not convert string to float: ''
         @ [CHR 0x27] @ ''-'' @ [CHR 0x27]], None)
   \<and> stdout (main
     (const_provider (Returns \<lparr>columns = [col_main_net_inflow, col_large_net_inflow],
                               rows = [[PyStr ''-'', PyFloat (Finite 5)]]\<rparr>))
     no_numeral [''akshare_fund_flow.py'', ''600000''])
   = [Json zero_snapshot]
   \<and> map_of zero_snapshot ''large_net_inflow'' = Some (PyInt 0)
   \<and> map_of zero_snapshot ''large_net_inflow'' \<noteq> Some (PyFloat (Finite 5))"
proof -
  have m: "market_of ''600000'' = Some ''sh''"
    by (simp add: market_of_def startswith_def)
  have ff: "fund_flow_of no_numeral
      (zip [col_main_net_inflow, col_large_net_inflow] [PyStr ''-'', PyFloat (Finite 5)])
      = Inl (PyExc ''ValueError''
       (''could not convert string to float: '' @ [CHR 0x27] @ ''-'' @ [CHR 0x27]))"
    by (simp add: fund_flow_of_def series_get_def label_cells_def no_numeral_def exc_bind_def
        col_main_net_inflow_def col_super_large_net_inflow_def
        col_large_net_inflow_def col_medium_net_inflow_def col_small_net_inflow_def
        col_net_inflow_ratio_def col_active_buy_amount_def col_active_sell_amount_def)
  have g: "get_fund_flow_data
     (const_provider (Returns \<lparr>columns = [col_main_net_inflow, col_large_net_inflow],
                               rows = [[PyStr ''-'', PyFloat (Finite 5)]]\<rparr>))
     no_numeral ''600000''
   = ([''Error getting fund flow data for 600000: could not convert string to float: ''
         @ [CHR 0x27] @ ''-'' @ [CHR 0x27]], None)"
    using m ff get_fund_flow_data_row [of "''600000''" "''sh''"
        "const_provider (Returns \<lparr>columns = [col_main_net_inflow, col_large_net_inflow],
                               rows = [[PyStr ''-'', PyFloat (Finite 5)]]\<rparr>)"
        "\<lparr>columns = [col_main_net_inflow, col_large_net_inflow],
                               rows = [[PyStr ''-'', PyFloat (Finite 5)]]\<rparr>" no_numeral]
    by (simp add: const_provider_def df_empty_def error_line_def)
  have s: "stock_code_of ''600000'' = ''600000''"
    by (simp add: stock_code_of_def startswith_any_def startswith_def)
  have "stdout (main
     (const_provider (Returns \<lparr>columns = [col_main_net_inflow, col_large_net_inflow],
                               rows = [[PyStr ''-'', PyFloat (Finite 5)]]\<rparr>))
     no_numeral [''akshare_fund_flow.py'', ''600000''])
   = [Json zero_snapshot]"
    using g s by (simp add: main_def)
  moreover have "map_of zero_snapshot ''large_net_inflow'' = Some (PyInt 0)"
    by (simp add: zero_snapshot_def)
  moreover have "map_of zero_snapshot ''large_net_inflow'' \<noteq> Some (PyFloat (Finite 5))"
    by (simp add: zero_snapshot_def)
  ultimately show ?thesis using g by simp
qed

text \<open>
  C4. For a table whose last row is \<open>r\<close>, the run is the same whatever the earlier rows
  hold: the result of \<^verbatim>\<open>get_fund_flow_data\<close> is computed from the columns and \<open>r\<close> alone.
\<close>

theorem latest_row_only:
  assumes "length argv = 2"
    and "market_of (stock_code_of (argv ! 1)) = Some market"
    and "ak (stock_code_of (argv ! 1)) market = Returns \<lparr>columns = cols, rows = earlier @ [r]\<rparr>"
    and "ak' (stock_code_of (argv ! 1)) market = Returns \<lparr>columns = cols, rows = earlier' @ [r]\<rparr>"
  shows "main ak fs argv = main ak' fs argv
         \<and> get_fund_flow_data ak fs (stock_code_of (argv ! 1)) =
             (if cols = [] then ([], None)
              else case fund_flow_of fs (zip cols r) of
                     Inr d \<Rightarrow> ([], Some d)
                   | Inl e \<Rightarrow> ([error_line (stock_code_of (argv ! 1)) e], None))"
proof -
  have g: "get_fund_flow_data p fs (stock_code_of (argv ! 1)) =
             (if cols = [] then ([], None)
              else case fund_flow_of fs (zip cols r) of
                     Inr d \<Rightarrow> ([], Some d)
                   | Inl e \<Rightarrow> ([error_line (stock_code_of (argv ! 1)) e], None))"
    if "p (stock_code_of (argv ! 1)) market = Returns \<lparr>columns = cols, rows = pre @ [r]\<rparr>"
    for p pre
  proof (cases "cols = []")
    case True
    then have "df_empty \<lparr>columns = cols, rows = pre @ [r]\<rparr>" by (simp add: df_empty_def)
    with assms(2) that True show ?thesis
      using get_fund_flow_data_empty [of "stock_code_of (argv ! 1)" market p
          "\<lparr>columns = cols, rows = pre @ [r]\<rparr>" fs] by simp
  next
    case False
    then have "\<not> df_empty \<lparr>columns = cols, rows = pre @ [r]\<rparr>" by (simp add: df_empty_def)
    with assms(2) that False show ?thesis
      using get_fund_flow_data_row [of "stock_code_of (argv ! 1)" market p
          "\<lparr>columns = cols, rows = pre @ [r]\<rparr>" fs] by simp
  qed
  have eq: "get_fund_flow_data ak fs (stock_code_of (argv ! 1)) =
        get_fund_flow_data ak' fs (stock_code_of (argv ! 1))"
    using g [of ak earlier] g [of ak' earlier'] assms(3,4) by simp
  have "main ak fs argv = main ak' fs argv"
    by (simp only: main_one_argument [OF assms(1)] eq)
  with g [of ak earlier] assms(3) show ?thesis by simp
qed

theorem latest_row_only_witness:
  "main (const_provider (Returns \<lparr>columns = [col_main_net_inflow],
           rows = [[PyFloat (Finite 1)], [PyFloat (Finite 7)]]\<rparr>)) no_numeral
     [''akshare_fund_flow.py'', ''000001'']
   = main (const_provider (Returns \<lparr>columns = [col_main_net_inflow],
           rows = [[PyStr ''-''], [PyFloat (Finite 7)]]\<rparr>)) no_numeral
     [''akshare_fund_flow.py'', ''000001'']"
proof -
  have a1: "length [''akshare_fund_flow.py'', ''000001''] = 2" by simp
  have a2: "market_of (stock_code_of ([''akshare_fund_flow.py'', ''000001''] ! 1)) = Some ''sz''"
    by (simp add: stock_code_of_def startswith_any_def startswith_def market_of_def)
  have a3: "const_provider (Returns \<lparr>columns = [col_main_net_inflow],
           rows = [[PyFloat (Finite 1)], [PyFloat (Finite 7)]]\<rparr>)
       (stock_code_of ([''akshare_fund_flow.py'', ''000001''] ! 1)) ''sz''
     = Returns \<lparr>columns = [col_main_net_inflow], rows = [[PyFloat (Finite 1)]] @ [[PyFloat (Finite 7)]]\<rparr>"
    by (simp add: const_provider_def)
  have a4: "const_provider (Returns \<lparr>columns = [col_main_net_inflow],
           rows = [[PyStr ''-''], [PyFloat (Finite 7)]]\<rparr>)
       (stock_code_of ([''akshare_fund_flow.py'', ''000001''] ! 1)) ''sz''
     = Returns \<lparr>columns = [col_main_net_inflow], rows = [[PyStr ''-'']] @ [[PyFloat (Finite 7)]]\<rparr>"
    by (simp add: const_provider_def)
  show ?thesis
    using latest_row_only [of "[''akshare_fund_flow.py'', ''000001'']" "''sz''"
        "const_provider (Returns \<lparr>columns = [col_main_net_inflow],
           rows = [[PyFloat (Finite 1)], [PyFloat (Finite 7)]]\<rparr>)"
        "[col_main_net_inflow]" "[[PyFloat (Finite 1)]]" "[PyFloat (Finite 7)]"
        "const_provider (Returns \<lparr>columns = [col_main_net_inflow],
           rows = [[PyStr ''-''], [PyFloat (Finite 7)]]\<rparr>)"
        "[[PyStr ''-'']]" no_numeral, OF a1 a2 a3 a4]
    by blast
qed

section \<open>The shape of the printed snapshot\<close>

lemma get_fund_flow_data_Some:
  assumes "snd (get_fund_flow_data ak fs stock_code) = Some d"
  shows "\<exists>latest_data. fund_flow_of fs latest_data = Inr d"
  using assms
  by (auto simp: get_fund_flow_data_def get_fund_flow_data_try_def exc_bind_def
      split: option.splits fetch_outcome.splits if_splits sum.splits)

lemma zero_snapshot_shape:
  "map fst zero_snapshot = canonical_fields" "list_all is_int_or_float (map snd zero_snapshot)"
  "list_all (\<lambda>v. v = PyInt 0) (map snd zero_snapshot)" "zero_snapshot \<noteq> []"
  by (simp_all add: zero_snapshot_def canonical_fields_def)

lemma is_float_number: "list_all is_float vs \<Longrightarrow> list_all is_int_or_float vs"
proof (induction vs)
  case Nil
  then show ?case by simp
next
  case (Cons v vs)
  then show ?case by (cases v) simp_all
qed

lemma main_emits:
  assumes "length argv = 2"
  shows "(snd (get_fund_flow_data ak fs (stock_code_of (argv ! 1))) = None
            \<and> stdout (main ak fs argv) = [Json zero_snapshot])
         \<or> (\<exists>d latest_data. snd (get_fund_flow_data ak fs (stock_code_of (argv ! 1))) = Some d
            \<and> fund_flow_of fs latest_data = Inr d \<and> stdout (main ak fs argv) = [Json d])"
proof (cases "snd (get_fund_flow_data ak fs (stock_code_of (argv ! 1)))")
  case None
  then show ?thesis by (simp add: main_one_argument [OF assms])
next
  case (Some d)
  then obtain latest_data where ff: "fund_flow_of fs latest_data = Inr d"
    using get_fund_flow_data_Some by blast
  then have "d \<noteq> []" using fund_flow_of_shape by blast
  with Some have "stdout (main ak fs argv) = [Json d]"
    by (simp add: main_one_argument [OF assms])
  with Some ff show ?thesis by blast
qed

lemma is_finite_number_PyFloat: "is_finite_number (PyFloat v) \<longleftrightarrow> (\<exists>x. v = Finite x)"
  by (cases v) simp_all

lemma fund_flow_of_finite:
  assumes "fund_flow_of fs latest_data = Inr d"
  shows "list_all is_finite_number (map snd d) \<longleftrightarrow>
           (\<forall>label \<in> set source_labels.
              \<exists>x. py_float fs (series_get latest_data label (PyInt 0)) = Inr (Finite x))"
proof -
  from fund_flow_of_Inr [OF assms] obtain v1 v2 v3 v4 v5 v6 v7 v8 where
    f: "py_float fs (series_get latest_data col_main_net_inflow (PyInt 0)) = Inr v1"
       "py_float fs (series_get latest_data col_super_large_net_inflow (PyInt 0)) = Inr v2"
       "py_float fs (series_get latest_data col_large_net_inflow (PyInt 0)) = Inr v3"
       "py_float fs (series_get latest_data col_medium_net_inflow (PyInt 0)) = Inr v4"
       "py_float fs (series_get latest_data col_small_net_inflow (PyInt 0)) = Inr v5"
       "py_float fs (series_get latest_data col_net_inflow_ratio (PyInt 0)) = Inr v6"
       "py_float fs (series_get latest_data col_active_buy_amount (PyInt 0)) = Inr v7"
       "py_float fs (series_get latest_data col_active_sell_amount (PyInt 0)) = Inr v8"
    and d: "d = [(''main_net_inflow'', PyFloat v1),
                  (''super_large_net_inflow'', PyFloat v2),
                  (''large_net_inflow'', PyFloat v3),
                  (''medium_net_inflow'', PyFloat v4),
                  (''small_net_inflow'', PyFloat v5),
                  (''net_inflow_ratio'', PyFloat v6),
                  (''active_buy_amount'', PyFloat v7),
                  (''active_sell_amount'', PyFloat v8)]"
    by blast
  show ?thesis
    unfolding d source_labels_def by (simp add: f is_finite_number_PyFloat)
qed

lemma run_single_cell:
  "stdout (main (const_provider (Returns \<lparr>columns = [col_main_net_inflow],
                                            rows = [[PyFloat x]]\<rparr>))
             no_numeral [''akshare_fund_flow.py'', ''600000''])
   = [Json [(''main_net_inflow'', PyFloat x),
            (''super_large_net_inflow'', PyFloat (Finite 0)),
            (''large_net_inflow'', PyFloat (Finite 0)),
            (''medium_net_inflow'', PyFloat (Finite 0)),
            (''small_net_inflow'', PyFloat (Finite 0)),
            (''net_inflow_ratio'', PyFloat (Finite 0)),
            (''active_buy_amount'', PyFloat (Finite 0)),
            (''active_sell_amount'', PyFloat (Finite 0))]]"
proof -
  have ff: "fund_flow_of no_numeral (zip [col_main_net_inflow] [PyFloat x]) =
      Inr [(''main_net_inflow'', PyFloat x),
            (''super_large_net_inflow'', PyFloat (Finite 0)),
            (''large_net_inflow'', PyFloat (Finite 0)),
            (''medium_net_inflow'', PyFloat (Finite 0)),
            (''small_net_inflow'', PyFloat (Finite 0)),
            (''net_inflow_ratio'', PyFloat (Finite 0)),
            (''active_buy_amount'', PyFloat (Finite 0)),
            (''active_sell_amount'', PyFloat (Finite 0))]"
    by (simp add: fund_flow_of_def series_get_def label_cells_def float_of_int_0
        exc_bind_def col_main_net_inflow_def col_super_large_net_inflow_def
        col_large_net_inflow_def col_medium_net_inflow_def col_small_net_inflow_def
        col_net_inflow_ratio_def col_active_buy_amount_def col_active_sell_amount_def)
  have m: "market_of ''600000'' = Some ''sh''"
    by (simp add: market_of_def startswith_def)
  have g: "get_fund_flow_data (const_provider (Returns \<lparr>columns = [col_main_net_inflow],
                                            rows = [[PyFloat x]]\<rparr>))
             no_numeral ''600000'' =
      ([], Some [(''main_net_inflow'', PyFloat x),
            (''super_large_net_inflow'', PyFloat (Finite 0)),
            (''large_net_inflow'', PyFloat (Finite 0)),
            (''medium_net_inflow'', PyFloat (Finite 0)),
            (''small_net_inflow'', PyFloat (Finite 0)),
            (''net_inflow_ratio'', PyFloat (Finite 0)),
            (''active_buy_amount'', PyFloat (Finite 0)),
            (''active_sell_amount'', PyFloat (Finite 0))])"
    using m ff get_fund_flow_data_row [of "''600000''" "''sh''"
        "const_provider (Returns \<lparr>columns = [col_main_net_inflow], rows = [[PyFloat x]]\<rparr>)"
        "\<lparr>columns = [col_main_net_inflow], rows = [[PyFloat x]]\<rparr>" no_numeral]
    by (simp add: const_provider_def df_empty_def)
  have s: "stock_code_of ''600000'' = ''600000''"
    by (simp add: stock_code_of_def startswith_any_def startswith_def)
  show ?thesis using g s by (simp add: main_def)
qed

text \<open>
  C6, as the code has it. Every dictionary that a run prints, from a row or from the
  default branch, has exactly the eight canonical field names, each once, and every
  value is of Python type \<^verbatim>\<open>int\<close> or \<^verbatim>\<open>float\<close>, never \<^verbatim>\<open>None\<close>; a run with one
  argument prints exactly one such dictionary. The dictionary is the default of eight
  integers \<open>0\<close>, which are numbers, or it is built from a row, and then its values are
  all finite numbers exactly when each of the eight conversions gives a finite float:
  a NaN or an infinity in a consumed cell is printed as it is.
\<close>

theorem snapshot_fields:
  "(\<forall>d. Json d \<in> set (stdout (main ak fs argv)) \<longrightarrow>
        map fst d = canonical_fields \<and> list_all is_int_or_float (map snd d)
        \<and> (d = zero_snapshot \<or> (\<exists>latest_data. fund_flow_of fs latest_data = Inr d)))
   \<and> (length argv = 2 \<longrightarrow> (\<exists>d. stdout (main ak fs argv) = [Json d]))
   \<and> list_all is_finite_number (map snd zero_snapshot)
   \<and> (\<forall>latest_data d. fund_flow_of fs latest_data = Inr d \<longrightarrow>
        (list_all is_finite_number (map snd d) \<longleftrightarrow>
           (\<forall>label \<in> set source_labels.
              \<exists>x. py_float fs (series_get latest_data label (PyInt 0)) = Inr (Finite x))))
   \<and> distinct canonical_fields \<and> length canonical_fields = 8"
proof (intro conjI allI impI)
  fix d
  assume d: "Json d \<in> set (stdout (main ak fs argv))"
  have two: "length argv = 2"
  proof (rule ccontr)
    assume "length argv \<noteq> 2"
    then have "stdout (main ak fs argv) = [Text usage_line]" by (simp add: main_def)
    with d show False by simp
  qed
  from main_emits [OF two, of ak fs] d
  show src: "d = zero_snapshot \<or> (\<exists>latest_data. fund_flow_of fs latest_data = Inr d)"
    by auto
  then show "map fst d = canonical_fields" and "list_all is_int_or_float (map snd d)"
    using zero_snapshot_shape fund_flow_of_shape is_float_number by blast+
next
  assume "length argv = 2"
  then show "\<exists>d. stdout (main ak fs argv) = [Json d]"
    using main_emits [of argv ak fs] by blast
next
  show "list_all is_finite_number (map snd zero_snapshot)"
    by (simp add: zero_snapshot_def)
next
  fix latest_data d
  assume "fund_flow_of fs latest_data = Inr d"
  then show "list_all is_finite_number (map snd d) \<longleftrightarrow>
           (\<forall>label \<in> set source_labels.
              \<exists>x. py_float fs (series_get latest_data label (PyInt 0)) = Inr (Finite x))"
    by (rule fund_flow_of_finite)
next
  show "distinct canonical_fields" by (simp add: canonical_fields_def)
  show "length canonical_fields = 8" by (simp add: canonical_fields_def)
qed

theorem snapshot_fields_witness:
  "stdout (main (const_provider (Returns \<lparr>columns = [col_main_net_inflow],
                                            rows = [[PyFloat (Finite 7)]]\<rparr>))
             no_numeral [''akshare_fund_flow.py'', ''600000''])
   = [Json [(''main_net_inflow'', PyFloat (Finite 7)),
            (''super_large_net_inflow'', PyFloat (Finite 0)),
            (''large_net_inflow'', PyFloat (Finite 0)),
            (''medium_net_inflow'', PyFloat (Finite 0)),
            (''small_net_inflow'', PyFloat (Finite 0)),
            (''net_inflow_ratio'', PyFloat (Finite 0)),
            (''active_buy_amount'', PyFloat (Finite 0)),
            (''active_sell_amount'', PyFloat (Finite 0))]]
   \<and> map fst [(''main_net_inflow'', PyFloat (Finite 7)),
            (''super_large_net_inflow'', PyFloat (Finite 0)),
            (''large_net_inflow'', PyFloat (Finite 0)),
            (''medium_net_inflow'', PyFloat (Finite 0)),
            (''small_net_inflow'', PyFloat (Finite 0)),
            (''net_inflow_ratio'', PyFloat (Finite 0)),
            (''active_buy_amount'', PyFloat (Finite 0)),
            (''active_sell_amount'', PyFloat (Finite 0))] = canonical_fields
   \<and> list_all is_int_or_float (map snd [(''main_net_inflow'', PyFloat (Finite 7)),
            (''super_large_net_inflow'', PyFloat (Finite 0)),
            (''large_net_inflow'', PyFloat (Finite 0)),
            (''medium_net_inflow'', PyFloat (Finite 0)),
            (''small_net_inflow'', PyFloat (Finite 0)),
            (''net_inflow_ratio'', PyFloat (Finite 0)),
            (''active_buy_amount'', PyFloat (Finite 0)),
            (''active_sell_amount'', PyFloat (Finite 0))])"
proof -
  have out: "stdout (main (const_provider (Returns \<lparr>columns = [col_main_net_inflow],
                                            rows = [[PyFloat (Finite 7)]]\<rparr>))
             no_numeral [''akshare_fund_flow.py'', ''600000''])
   = [Json [(''main_net_inflow'', PyFloat (Finite 7)),
            (''super_large_net_inflow'', PyFloat (Finite 0)),
            (''large_net_inflow'', PyFloat (Finite 0)),
            (''medium_net_inflow'', PyFloat (Finite 0)),
            (''small_net_inflow'', PyFloat (Finite 0)),
            (''net_inflow_ratio'', PyFloat (Finite 0)),
            (''active_buy_amount'', PyFloat (Finite 0)),
            (''active_sell_amount'', PyFloat (Finite 0))]]"
    by (rule run_single_cell)
  then have "Json [(''main_net_inflow'', PyFloat (Finite 7)),
            (''super_large_net_inflow'', PyFloat (Finite 0)),
            (''large_net_inflow'', PyFloat (Finite 0)),
            (''medium_net_inflow'', PyFloat (Finite 0)),
            (''small_net_inflow'', PyFloat (Finite 0)),
            (''net_inflow_ratio'', PyFloat (Finite 0)),
            (''active_buy_amount'', PyFloat (Finite 0)),
            (''active_sell_amount'', PyFloat (Finite 0))]
      \<in> set (stdout (main (const_provider (Returns \<lparr>columns = [col_main_net_inflow],
                                            rows = [[PyFloat (Finite 7)]]\<rparr>))
             no_numeral [''akshare_fund_flow.py'', ''600000'']))"
    by simp
  with snapshot_fields [of "const_provider (Returns \<lparr>columns = [col_main_net_inflow],
                                            rows = [[PyFloat (Finite 7)]]\<rparr>)"
      no_numeral "[''akshare_fund_flow.py'', ''600000'']"]
  have "map fst [(''main_net_inflow'', PyFloat (Finite 7)),
            (''super_large_net_inflow'', PyFloat (Finite 0)),
            (''large_net_inflow'', PyFloat (Finite 0)),
            (''medium_net_inflow'', PyFloat (Finite 0)),
            (''small_net_inflow'', PyFloat (Finite 0)),
            (''net_inflow_ratio'', PyFloat (Finite 0)),
            (''active_buy_amount'', PyFloat (Finite 0)),
            (''active_sell_amount'', PyFloat (Finite 0))] = canonical_fields
   \<and> list_all is_int_or_float (map snd [(''main_net_inflow'', PyFloat (Finite 7)),
            (''super_large_net_inflow'', PyFloat (Finite 0)),
            (''large_net_inflow'', PyFloat (Finite 0)),
            (''medium_net_inflow'', PyFloat (Finite 0)),
            (''small_net_inflow'', PyFloat (Finite 0)),
            (''net_inflow_ratio'', PyFloat (Finite 0)),
            (''active_buy_amount'', PyFloat (Finite 0)),
            (''active_sell_amount'', PyFloat (Finite 0))])"
    by blast
  with out show ?thesis by blast
qed

text \<open>
  The claim as stated fails: a row whose main-force net inflow is NaN, the missing value
  of pandas, is printed with NaN in that field, which is no number.
\<close>

theorem snapshot_nan_counterexample:
  "stdout (main (const_provider (Returns \<lparr>columns = [col_main_net_inflow],
                                            rows = [[PyFloat NaN]]\<rparr>))
             no_numeral [''akshare_fund_flow.py'', ''600000''])
   = [Json [(''main_net_inflow'', PyFloat NaN),
            (''super_large_net_inflow'', PyFloat (Finite 0)),
            (''large_net_inflow'', PyFloat (Finite 0)),
            (''medium_net_inflow'', PyFloat (Finite 0)),
            (''small_net_inflow'', PyFloat (Finite 0)),
            (''net_inflow_ratio'', PyFloat (Finite 0)),
            (''active_buy_amount'', PyFloat (Finite 0)),
            (''active_sell_amount'', PyFloat (Finite 0))]]
   \<and> \<not> is_finite_number (PyFloat NaN)"
  using run_single_cell [of NaN] by simp

text \<open>
  C7, as the code has it. A run with one argument prints one dictionary with the eight
  canonical field names in their fixed order and a value of Python type \<^verbatim>\<open>int\<close> or
  \<^verbatim>\<open>float\<close> in every field. The type follows the path: all eight values are floats
  (finite, infinite or NaN, as \<^verbatim>\<open>float\<close> made them from the row) when the dictionary
  comes from a row, and all eight are the integer \<open>0\<close> when it comes from the default
  branch.
\<close>

theorem snapshot_typing_by_path:
  assumes "length argv = 2"
  shows "\<exists>d. stdout (main ak fs argv) = [Json d] \<and> map fst d = canonical_fields
           \<and> list_all is_int_or_float (map snd d)
           \<and> (case snd (get_fund_flow_data ak fs (stock_code_of (argv ! 1))) of
                Some row \<Rightarrow> d = row \<and> list_all is_float (map snd d)
              | None \<Rightarrow> d = zero_snapshot \<and> list_all (\<lambda>v. v = PyInt 0) (map snd d))"
proof -
  from main_emits [OF assms, of ak fs] show ?thesis
  proof
    assume "snd (get_fund_flow_data ak fs (stock_code_of (argv ! 1))) = None
            \<and> stdout (main ak fs argv) = [Json zero_snapshot]"
    then show ?thesis using zero_snapshot_shape by simp
  next
    assume "\<exists>d latest_data. snd (get_fund_flow_data ak fs (stock_code_of (argv ! 1))) = Some d
            \<and> fund_flow_of fs latest_data = Inr d \<and> stdout (main ak fs argv) = [Json d]"
    then obtain d latest_data where
      s: "snd (get_fund_flow_data ak fs (stock_code_of (argv ! 1))) = Some d"
      and ff: "fund_flow_of fs latest_data = Inr d"
      and out: "stdout (main ak fs argv) = [Json d]"
      by blast
    from fund_flow_of_shape [OF ff] have "map fst d = canonical_fields"
      and "list_all is_float (map snd d)" by simp_all
    with s out show ?thesis using is_float_number by simp
  qed
qed

theorem snapshot_typing_by_path_witness:
  "stdout (main (const_provider (Raises (PyExc ''ConnectionError'' ''timed out'')))
          no_numeral [''akshare_fund_flow.py'', ''600000'']) = [Json zero_snapshot]
   \<and> list_all (\<lambda>v. v = PyInt 0) (map snd zero_snapshot)"
proof -
  have l: "length [''akshare_fund_flow.py'', ''600000''] = 2" by simp
  have "market_of ''600000'' = Some ''sh''"
    by (simp add: market_of_def startswith_def)
  then have "get_fund_flow_data (const_provider (Raises (PyExc ''ConnectionError'' ''timed out'')))
      no_numeral ''600000''
      = ([error_line ''600000'' (PyExc ''ConnectionError'' ''timed out'')], None)"
    by (rule get_fund_flow_data_raises) (simp add: const_provider_def)
  moreover have "stock_code_of ''600000'' = ''600000''"
    by (simp add: stock_code_of_def startswith_any_def startswith_def)
  ultimately have "snd (get_fund_flow_data
      (const_provider (Raises (PyExc ''ConnectionError'' ''timed out''))) no_numeral
      (stock_code_of ([''akshare_fund_flow.py'', ''600000''] ! 1))) = None"
    by simp
  with snapshot_typing_by_path [OF l,
      of "const_provider (Raises (PyExc ''ConnectionError'' ''timed out''))" no_numeral]
  show ?thesis by auto
qed

text \<open>
  The claim as stated fails: with the same provider, the stock code \<open>600000\<close> prints eight
  floats \<open>0.0\<close> from its row, and the stock code \<open>990001\<close>, which has no market, prints
  eight integers \<open>0\<close>.
\<close>

theorem numeric_typing_counterexample:
  "stdout (main (const_provider (Returns \<lparr>columns = [col_main_net_inflow],
                                            rows = [[PyFloat (Finite 0)]]\<rparr>))
             no_numeral [''akshare_fund_flow.py'', ''600000''])
   = [Json [(''main_net_inflow'', PyFloat (Finite 0)),
            (''super_large_net_inflow'', PyFloat (Finite 0)),
            (''large_net_inflow'', PyFloat (Finite 0)),
            (''medium_net_inflow'', PyFloat (Finite 0)),
            (''small_net_inflow'', PyFloat (Finite 0)),
            (''net_inflow_ratio'', PyFloat (Finite 0)),
            (''active_buy_amount'', PyFloat (Finite 0)),
            (''active_sell_amount'', PyFloat (Finite 0))]]
   \<and> stdout (main (const_provider (Returns \<lparr>columns = [col_main_net_inflow],
                                            rows = [[PyFloat (Finite 0)]]\<rparr>))
             no_numeral [''akshare_fund_flow.py'', ''990001''])
   = [Json [(''main_net_inflow'', PyInt 0),
            (''super_large_net_inflow'', PyInt 0),
            (''large_net_inflow'', PyInt 0),
            (''medium_net_inflow'', PyInt 0),
            (''small_net_inflow'', PyInt 0),
            (''net_inflow_ratio'', PyInt 0),
            (''active_buy_amount'', PyInt 0),
            (''active_sell_amount'', PyInt 0)]]
   \<and> is_float (PyFloat (Finite 0)) \<and> \<not> is_float (PyInt 0)"
proof -
  have s': "stock_code_of ''990001'' = ''990001''"
    by (simp add: stock_code_of_def startswith_any_def startswith_def)
  have n: "market_of ''990001'' = None"
    by (simp add: market_of_def startswith_def)
  have dflt: "stdout (main (const_provider (Returns \<lparr>columns = [col_main_net_inflow],
                                            rows = [[PyFloat (Finite 0)]]\<rparr>))
             no_numeral [''akshare_fund_flow.py'', ''990001''])
   = [Json zero_snapshot]"
    using s' get_fund_flow_data_unsupported [OF n] by (simp add: main_def)
  show ?thesis
    using run_single_cell [of "Finite 0"] dflt by (simp add: zero_snapshot_def)
qed

section \<open>The handler of \<^verbatim>\<open>get_fund_flow_data\<close>\<close>

text \<open>
  C10. \<^verbatim>\<open>get_fund_flow_data\<close> returns on every input: whatever leaves the body of its
  \<^verbatim>\<open>try\<close> as an exception (raised by the provider call, by the selection of the last
  row, or by a conversion to float) becomes the error line and the result \<^verbatim>\<open>None\<close>,
  and a result of the body is returned as it is. Hence every run with one argument
  prints its dictionary and ends with status 0.
\<close>

theorem get_fund_flow_data_catches:
  "(\<forall>e. get_fund_flow_data_try ak fs stock_code = Inl e \<longrightarrow>
        get_fund_flow_data ak fs stock_code = ([error_line stock_code e], None))
   \<and> (\<forall>r. get_fund_flow_data_try ak fs stock_code = Inr r \<longrightarrow>
        get_fund_flow_data ak fs stock_code = ([], r))
   \<and> (\<forall>market e. market_of stock_code = Some market \<and> ak stock_code market = Raises e \<longrightarrow>
        get_fund_flow_data_try ak fs stock_code = Inl e)
   \<and> (\<forall>market df e. market_of stock_code = Some market \<and> ak stock_code market = Returns df
        \<and> \<not> df_empty df \<and> iloc_last df = Inl e \<longrightarrow>
        get_fund_flow_data_try ak fs stock_code = Inl e)
   \<and> (\<forall>market df latest_data e. market_of stock_code = Some market
        \<and> ak stock_code market = Returns df \<and> \<not> df_empty df
        \<and> iloc_last df = Inr latest_data \<and> fund_flow_of fs latest_data = Inl e \<longrightarrow>
        get_fund_flow_data_try ak fs stock_code = Inl e)
   \<and> (length argv = 2 \<longrightarrow>
        (\<exists>d. stdout (main ak fs argv) = [Json d]) \<and> exit_code (main ak fs argv) = 0)"
proof (intro conjI allI impI)
  fix e assume "get_fund_flow_data_try ak fs stock_code = Inl e"
  then show "get_fund_flow_data ak fs stock_code = ([error_line stock_code e], None)"
    by (simp add: get_fund_flow_data_def)
next
  fix r assume "get_fund_flow_data_try ak fs stock_code = Inr r"
  then show "get_fund_flow_data ak fs stock_code = ([], r)"
    by (simp add: get_fund_flow_data_def)
next
  fix market e
  assume "market_of stock_code = Some market \<and> ak stock_code market = Raises e"
  then show "get_fund_flow_data_try ak fs stock_code = Inl e"
    by (simp add: get_fund_flow_data_try_def)
next
  fix market df e
  assume "market_of stock_code = Some market \<and> ak stock_code market = Returns df
        \<and> \<not> df_empty df \<and> iloc_last df = Inl e"
  then show "get_fund_flow_data_try ak fs stock_code = Inl e"
    by (simp add: get_fund_flow_data_try_def exc_bind_def)
next
  fix market df latest_data e
  assume "market_of stock_code = Some market
        \<and> ak stock_code market = Returns df \<and> \<not> df_empty df
        \<and> iloc_last df = Inr latest_data \<and> fund_flow_of fs latest_data = Inl e"
  then show "get_fund_flow_data_try ak fs stock_code = Inl e"
    by (simp add: get_fund_flow_data_try_def exc_bind_def)
next
  assume two: "length argv = 2"
  then show "\<exists>d. stdout (main ak fs argv) = [Json d]"
    using main_emits [of argv ak fs] by blast
  show "exit_code (main ak fs argv) = 0"
    by (simp add: main_one_argument [OF two] split: option.splits)
qed

theorem get_fund_flow_data_catches_witness:
  "get_fund_flow_data (const_provider (Raises (PyExc ''ConnectionError'' ''timed out'')))
     no_numeral ''300750''
   = ([''Error getting fund flow data for 300750: timed out''], None)
   \<and> exit_code (main (const_provider (Raises (PyExc ''ConnectionError'' ''timed out'')))
       no_numeral [''akshare_fund_flow.py'', ''300750'']) = 0"
proof -
  have m: "market_of ''300750'' = Some ''sz''"
    by (simp add: market_of_def startswith_def)
  have p: "const_provider (Raises (PyExc ''ConnectionError'' ''timed out'')) ''300750'' ''sz''
      = Raises (PyExc ''ConnectionError'' ''timed out'')"
    by (simp add: const_provider_def)
  have l: "length [''akshare_fund_flow.py'', ''300750''] = 2" by simp
  note c = get_fund_flow_data_catches
      [of "const_provider (Raises (PyExc ''ConnectionError'' ''timed out''))" no_numeral
        "''300750''" "[''akshare_fund_flow.py'', ''300750'']"]
  from c m p have "get_fund_flow_data_try
      (const_provider (Raises (PyExc ''ConnectionError'' ''timed out''))) no_numeral ''300750''
      = Inl (PyExc ''ConnectionError'' ''timed out'')"
    by blast
  with c have "get_fund_flow_data
      (const_provider (Raises (PyExc ''ConnectionError'' ''timed out''))) no_numeral ''300750''
      = ([error_line ''300750'' (PyExc ''ConnectionError'' ''timed out'')], None)"
    by blast
  moreover from c l have "exit_code (main
      (const_provider (Raises (PyExc ''ConnectionError'' ''timed out'')))
       no_numeral [''akshare_fund_flow.py'', ''300750'']) = 0"
    by blast
  ultimately show ?thesis by (simp add: error_line_def)
qed

end
